theory Spec2Isabelle
  imports Complex_Main
begin

section \<open>Conventions of the embedding\<close>

text \<open>
  The decision pipeline of the trading backend: the backtest gate, the Bayesian and
  Monte Carlo probability estimators, the multi-factor scorer, the strategy executor and
  the signal pipeline that wires them together.

  Python \<^verbatim>\<open>float\<close> values are modelled as \<^typ>\<open>real\<close>: arithmetic is exact,
  and there is no NaN, no infinity and no rounding error. Python \<^verbatim>\<open>int\<close> is
  \<^typ>\<open>int\<close>. A \<^verbatim>\<open>dict\<close> is an association list read with
  \<^const>\<open>map_of\<close>. An exception is a value \<open>Inl e\<close> of a sum type; a
  \<^verbatim>\<open>try ... except Exception\<close> block is a case distinction on that value.
\<close>

datatype error = TypeError | KeyError | ValueError

subsection \<open>Dictionary access\<close>

text \<open>\<^verbatim>\<open>d.get(k, default)\<close>\<close>

definition get_or :: "('k \<times> 'v) list \<Rightarrow> 'k \<Rightarrow> 'v \<Rightarrow> 'v" where
  "get_or d k dflt = (case map_of d k of None \<Rightarrow> dflt | Some v \<Rightarrow> v)"

text \<open>\<^verbatim>\<open>d[k]\<close>, which raises KeyError on a missing key.\<close>

definition subscript :: "('k \<times> 'v) list \<Rightarrow> 'k \<Rightarrow> error + 'v" where
  "subscript d k = (case map_of d k of None \<Rightarrow> Inl KeyError | Some v \<Rightarrow> Inr v)"

subsection \<open>Conversion to float\<close>

text \<open>
  A nullable DECIMAL column read from the database is \<open>Some x\<close> or \<open>None\<close>;
  \<^verbatim>\<open>float(None)\<close> raises TypeError, and so does comparing \<^verbatim>\<open>None\<close> with a
  number.
\<close>

definition py_float :: "real option \<Rightarrow> error + real" where
  "py_float v = (case v of None \<Rightarrow> Inl TypeError | Some x \<Rightarrow> Inr x)"

text \<open>
  A value of a \<^verbatim>\<open>Dict[str, Any]\<close> that is handed to \<^verbatim>\<open>float()\<close>: a number,
  or something \<^verbatim>\<open>float()\<close> rejects (None, a list, a non-numeric string).
\<close>

datatype pyval = Num real | NotNum

definition float_of :: "pyval \<Rightarrow> error + real" where
  "float_of v = (case v of Num x \<Rightarrow> Inr x | NotNum \<Rightarrow> Inl TypeError)"

subsection \<open>Rounding\<close>

text \<open>
  \<^verbatim>\<open>round(x, n)\<close> rounds to \<open>n\<close> decimal places, a tie going to the even
  neighbour.
\<close>

definition round_half_even :: "real \<Rightarrow> int" where
  "round_half_even y =
     (let f = \<lfloor>y\<rfloor>; d = y - of_int f
      in if d < 1 / 2 then f
         else if 1 / 2 < d then f + 1
         else if even f then f else f + 1)"

definition py_round :: "real \<Rightarrow> nat \<Rightarrow> real" where
  "py_round x n = of_int (round_half_even (x * 10 ^ n)) / 10 ^ n"

section \<open>Configuration (config.py)\<close>

record settings =
  MIN_SIGNAL_SCORE :: real
  MIN_PROBABILITY :: real
  SIGNAL_EXPIRY_HOURS :: int
  MIN_BACKTEST_TRADES :: int
  MIN_WIN_RATE :: real
  MIN_SHARPE_RATIO :: real
  MAX_DRAWDOWN :: real
  MONTE_CARLO_SIMULATIONS :: int

text \<open>The values \<^verbatim>\<open>Settings\<close> takes when the environment overrides nothing.\<close>

definition default_settings :: settings where
  "default_settings =
     \<lparr> MIN_SIGNAL_SCORE = 7, MIN_PROBABILITY = 60, SIGNAL_EXPIRY_HOURS = 24,
       MIN_BACKTEST_TRADES = 100, MIN_WIN_RATE = 55, MIN_SHARPE_RATIO = 15 / 10,
       MAX_DRAWDOWN = 20, MONTE_CARLO_SIMULATIONS = 10000 \<rparr>"

section \<open>Backtest gate (pipeline.py, \_validate\_backtest)\<close>

text \<open>The columns of \<^verbatim>\<open>BacktestResult\<close> the pipeline reads; each is nullable.\<close>

record backtest_result =
  total_trades :: "int option"
  win_rate :: "real option"
  sharpe_ratio :: "real option"
  max_drawdown :: "real option"
  profit_factor :: "real option"
  expectancy :: "real option"

text \<open>
  Four checks in the source's order, each returning False as soon as it fails. A check
  that reaches a NULL column raises TypeError.
\<close>

definition validate_backtest :: "settings \<Rightarrow> backtest_result \<Rightarrow> error + bool" where
  "validate_backtest cfg backtest =
     (case total_trades backtest of
        None \<Rightarrow> Inl TypeError
      | Some t \<Rightarrow>
          if t < MIN_BACKTEST_TRADES cfg then Inr False
          else (case py_float (win_rate backtest) of
                  Inl e \<Rightarrow> Inl e
                | Inr w \<Rightarrow>
                    if w < MIN_WIN_RATE cfg then Inr False
                    else (case py_float (sharpe_ratio backtest) of
                            Inl e \<Rightarrow> Inl e
                          | Inr s \<Rightarrow>
                              if s < MIN_SHARPE_RATIO cfg then Inr False
                              else (case py_float (max_drawdown backtest) of
                                      Inl e \<Rightarrow> Inl e
                                    | Inr d \<Rightarrow>
                                        if MAX_DRAWDOWN cfg < d then Inr False
                                        else Inr True))))"

section \<open>Multi-factor scorer (signal\_scorer.py)\<close>

record signal_scorer =
  weights :: "(string \<times> real) list"

definition WEIGHTS :: "(string \<times> real) list" where
  "WEIGHTS =
     [(''probability_score'', 35 / 100),
      (''backtest_performance'', 25 / 100),
      (''market_regime_match'', 20 / 100),
      (''risk_reward_ratio'', 15 / 100),
      (''volatility_match'', 5 / 100)]"

text \<open>
  \<^verbatim>\<open>SignalScorer.__init__(weights=None)\<close>. The guard \<^verbatim>\<open>if weights:\<close> is
  false for \<^verbatim>\<open>None\<close> and for the empty dict; both take the default weights.
\<close>

definition SignalScorer_init :: "(string \<times> real) list option \<Rightarrow> error + signal_scorer" where
  "SignalScorer_init ws =
     (case ws of
        None \<Rightarrow> Inr \<lparr> weights = WEIGHTS \<rparr>
      | Some w \<Rightarrow>
          if w \<noteq> [] then
            (let total = sum_list (map snd w)
             in if \<bar>total - 1\<bar> > 1 / 100 then Inl ValueError
                else Inr \<lparr> weights = w \<rparr>)
          else Inr \<lparr> weights = WEIGHTS \<rparr>)"

text \<open>\<^verbatim>\<open>_calculate_performance_factor\<close>; its own handler returns 5.0.\<close>

definition calculate_performance_factor :: "(string \<times> pyval) list \<Rightarrow> real" where
  "calculate_performance_factor metrics =
     (case float_of (get_or metrics ''win_rate'' (Num 50)) of
        Inl e \<Rightarrow> 5
      | Inr wr \<Rightarrow>
          (case float_of (get_or metrics ''sharpe_ratio'' (Num 0)) of
             Inl e \<Rightarrow> 5
           | Inr sharpe \<Rightarrow>
               (let win_component = (wr / 100) * 10;
                    sharpe_component = min (sharpe / 3) 1 * 10;
                    performance = (win_component + sharpe_component) / 2
                in max 0 (min 10 performance))))"

text \<open>\<^verbatim>\<open>_calculate_regime_factor\<close>\<close>

definition calculate_regime_factor :: "string \<Rightarrow> (string \<times> real) list \<Rightarrow> real" where
  "calculate_regime_factor current_regime regime_performance =
     (let regime_win_rate = get_or regime_performance current_regime 50;
          factor = (regime_win_rate / 100) * 10
      in max 0 (min 10 factor))"

text \<open>\<^verbatim>\<open>_calculate_risk_reward_factor\<close>\<close>

definition calculate_risk_reward_factor :: "real \<Rightarrow> real" where
  "calculate_risk_reward_factor rr_ratio =
     (if rr_ratio \<ge> 3 then 10
      else if rr_ratio \<ge> 2 then 7 + ((rr_ratio - 2) * 3)
      else if rr_ratio \<ge> 1 then 3 + ((rr_ratio - 1) * 4)
      else max 0 (rr_ratio * 3))"

text \<open>\<^verbatim>\<open>_calculate_volatility_factor\<close>\<close>

definition volatility_scale :: "(string \<times> int) list" where
  "volatility_scale =
     [(''very_low'', 1), (''low'', 2), (''normal'', 3), (''high'', 4), (''very_high'', 5)]"

definition calculate_volatility_factor :: "string \<Rightarrow> string \<Rightarrow> real" where
  "calculate_volatility_factor current optimal =
     (let current_level = get_or volatility_scale current 3;
          optimal_level = get_or volatility_scale optimal 3;
          difference = \<bar>current_level - optimal_level\<bar>
      in if difference = 0 then 10
         else if difference = 1 then 7
         else if difference = 2 then 5
         else 3)"

text \<open>
  The body of the \<^verbatim>\<open>try\<close> block of \<^verbatim>\<open>calculate_signal_score\<close>. The five
  weights are read with \<^verbatim>\<open>self.weights[...]\<close> in the order of the sum; a custom
  weight map that lacks one of the keys raises KeyError there.
\<close>

definition weighted_score ::
  "signal_scorer \<Rightarrow> real \<Rightarrow> (string \<times> pyval) list \<Rightarrow> string \<Rightarrow> (string \<times> real) list \<Rightarrow>
   real \<Rightarrow> string \<Rightarrow> string \<Rightarrow> error + real" where
  "weighted_score self probability_score backtest_metrics market_regime
     strategy_regime_performance risk_reward_ratio current_volatility optimal_volatility =
     (let prob_factor = (probability_score / 100) * 10;
          perf_factor = calculate_performance_factor backtest_metrics;
          regime_factor = calculate_regime_factor market_regime strategy_regime_performance;
          rr_factor = calculate_risk_reward_factor risk_reward_ratio;
          vol_factor = calculate_volatility_factor current_volatility optimal_volatility
      in case subscript (weights self) ''probability_score'' of
           Inl e \<Rightarrow> Inl e
         | Inr w1 \<Rightarrow>
        (case subscript (weights self) ''backtest_performance'' of
           Inl e \<Rightarrow> Inl e
         | Inr w2 \<Rightarrow>
        (case subscript (weights self) ''market_regime_match'' of
           Inl e \<Rightarrow> Inl e
         | Inr w3 \<Rightarrow>
        (case subscript (weights self) ''risk_reward_ratio'' of
           Inl e \<Rightarrow> Inl e
         | Inr w4 \<Rightarrow>
        (case subscript (weights self) ''volatility_match'' of
           Inl e \<Rightarrow> Inl e
         | Inr w5 \<Rightarrow>
             Inr (prob_factor * w1 + perf_factor * w2 + regime_factor * w3 +
                  rr_factor * w4 + vol_factor * w5))))))"

text \<open>
  \<^verbatim>\<open>calculate_signal_score\<close>: the weighted sum clamped to [0, 10] and rounded to
  one decimal; the handler returns 5.0.
\<close>

definition calculate_signal_score ::
  "signal_scorer \<Rightarrow> real \<Rightarrow> (string \<times> pyval) list \<Rightarrow> string \<Rightarrow> (string \<times> real) list \<Rightarrow>
   real \<Rightarrow> string \<Rightarrow> string \<Rightarrow> real" where
  "calculate_signal_score self probability_score backtest_metrics market_regime
     strategy_regime_performance risk_reward_ratio current_volatility optimal_volatility =
     (case weighted_score self probability_score backtest_metrics market_regime
             strategy_regime_performance risk_reward_ratio current_volatility
             optimal_volatility of
        Inl e \<Rightarrow> 5
      | Inr score \<Rightarrow>
          (let final_score = max 0 (min 10 score)
           in py_round final_score 1))"

section \<open>Bayesian estimator (bayesian.py)\<close>

text \<open>
  \<^verbatim>\<open>historical_performance\<close> holds success and failure rates under keys of the
  form \<^verbatim>\<open><regime>_<outcome>_rate\<close> and a volatility name under
  \<^verbatim>\<open>optimal_volatility\<close>; the record keeps the two kinds of entry apart.
  \<^verbatim>\<open>current_conditions\<close> maps \<^verbatim>\<open>regime\<close> and \<^verbatim>\<open>volatility\<close> to names.
\<close>

record historical_performance =
  rates :: "(string \<times> real) list"
  optimal_vol :: "string option"

text \<open>\<^verbatim>\<open>_calculate_likelihood\<close>\<close>

definition calculate_likelihood ::
  "(string \<times> string) list \<Rightarrow> historical_performance \<Rightarrow> string \<Rightarrow> real" where
  "calculate_likelihood current_conditions historical outcome =
     (let regime = get_or current_conditions ''regime'' ''unknown'';
          regime_stats = get_or (rates historical) (regime @ ''_'' @ outcome @ ''_rate'') (1 / 2);
          volatility = get_or current_conditions ''volatility'' ''normal'';
          optimal_volatility = (case optimal_vol historical of None \<Rightarrow> ''normal'' | Some v \<Rightarrow> v);
          likelihood = (if volatility = optimal_volatility then regime_stats * (12 / 10)
                        else regime_stats * (8 / 10))
      in max (1 / 10) (min (9 / 10) likelihood))"

text \<open>
  \<^verbatim>\<open>calculate_posterior_probability\<close>. On numbers no statement of the
  \<^verbatim>\<open>try\<close> block raises (the only division is guarded), so the handler has no branch
  here.
\<close>

definition calculate_posterior_probability ::
  "real \<Rightarrow> (string \<times> string) list \<Rightarrow> historical_performance \<Rightarrow> real" where
  "calculate_posterior_probability prior_win_rate current_conditions historical =
     (let p_success = prior_win_rate / 100;
          p_conditions_given_success = calculate_likelihood current_conditions historical ''success'';
          p_conditions_given_failure = calculate_likelihood current_conditions historical ''failure'';
          p_conditions = p_conditions_given_success * p_success +
                         p_conditions_given_failure * (1 - p_success)
      in if p_conditions = 0 then prior_win_rate
         else (let p_success_given_conditions =
                     p_conditions_given_success * p_success / p_conditions;
                   posterior = p_success_given_conditions * 100
               in max 0 (min 100 posterior)))"

section \<open>Monte Carlo estimator (monte\_carlo.py)\<close>

text \<open>
  \<^verbatim>\<open>np.random.random()\<close> is a stream of draws \<open>rng :: nat \<Rightarrow> real\<close> read at a
  cursor that advances by one with each call. The inner loop runs one simulated sequence
  of trades and stops early once the capital is gone; it returns the final capital and
  the cursor.
\<close>

fun run_trades ::
  "(nat \<Rightarrow> real) \<Rightarrow> real \<Rightarrow> real \<Rightarrow> real \<Rightarrow> nat \<Rightarrow> real \<Rightarrow> nat \<Rightarrow> real \<times> nat" where
  "run_trades rng p_win avg_win avg_loss 0 capital cur = (capital, cur)"
| "run_trades rng p_win avg_win avg_loss (Suc k) capital cur =
     (let profit = (if rng cur < p_win then capital * (avg_win / 100)
                    else capital * (avg_loss / 100));
          capital' = capital + profit
      in if capital' \<le> 0 then (0, Suc cur)
         else run_trades rng p_win avg_win avg_loss k capital' (Suc cur))"

text \<open>The outer loop: the list \<^verbatim>\<open>final_capitals\<close>, in the order it is appended to.\<close>

fun run_simulations ::
  "(nat \<Rightarrow> real) \<Rightarrow> real \<Rightarrow> real \<Rightarrow> real \<Rightarrow> nat \<Rightarrow> real \<Rightarrow> nat \<Rightarrow> nat \<Rightarrow> real list" where
  "run_simulations rng p_win avg_win avg_loss n_trades initial_capital 0 cur = []"
| "run_simulations rng p_win avg_win avg_loss n_trades initial_capital (Suc n) cur =
     (case run_trades rng p_win avg_win avg_loss n_trades initial_capital cur of
        (capital, cur') \<Rightarrow>
          capital # run_simulations rng p_win avg_win avg_loss n_trades initial_capital n cur')"

text \<open>
  The entry \<^verbatim>\<open>probability_of_profit\<close> of the result of
  \<^verbatim>\<open>simulate_strategy_performance\<close>, the only entry the pipeline reads. The
  simulator is run with a positive number of simulations; the quotient below is the
  source's for such a number (for \<open>n_simulations = 0\<close> numpy divides zero by zero,
  which these definitions do not describe). On numbers and a positive count no statement
  of the \<^verbatim>\<open>try\<close> block raises, so the handler, which would return 50.0, has no
  branch here.
\<close>

definition probability_of_profit ::
  "int \<Rightarrow> (nat \<Rightarrow> real) \<Rightarrow> real \<Rightarrow> real \<Rightarrow> real \<Rightarrow> int \<Rightarrow> real \<Rightarrow> real" where
  "probability_of_profit n_simulations rng wr avg_win avg_loss n_trades initial_capital =
     (let p_win = wr / 100;
          final_capitals = run_simulations rng p_win avg_win avg_loss (nat n_trades)
                             initial_capital (nat n_simulations) 0;
          prob_profit = real (length (filter (\<lambda>c. c > initial_capital) final_capitals))
                          / of_int n_simulations * 100
      in py_round prob_profit 2)"

section \<open>Strategy executor (executor.py)\<close>

text \<open>
  The parameter mapping of a rule, restricted to the two keys the executor reads; a rule
  without \<^verbatim>\<open>parameters\<close> has both absent.
\<close>

record params =
  threshold :: "real option"
  period :: "int option"

text \<open>A rule; \<^verbatim>\<open>rule.get('type')\<close> is \<open>None\<close> when the key is missing.\<close>

record rule =
  rule_type :: "string option"
  condition :: "string option"
  parameters :: params

text \<open>
  A strategy dict: \<^verbatim>\<open>id\<close>, \<^verbatim>\<open>is_active\<close> (absent when \<open>None\<close>), and of
  \<^verbatim>\<open>config\<close> the rule list (empty when absent) and the two risk-management entries.
\<close>

record strategy =
  strat_id :: "string option"
  is_active :: "bool option"
  rules :: "rule list"
  stop_loss_pips :: "real option"
  take_profit_pips :: "real option"

text \<open>The candle dict: the keys the executor reads.\<close>

record market_tick =
  tick_symbol :: "string option"
  close :: "real option"
  indicators :: "(string \<times> real) list option"

text \<open>\<^verbatim>\<open>datetime.utcnow()\<close>: its hour and its ISO string.\<close>

record clock =
  hour :: nat
  isoformat :: string

text \<open>The dict \<^verbatim>\<open>_generate_signal\<close> returns.\<close>

record signal_candidate =
  c_strategy_id :: "string option"
  c_symbol :: string
  c_direction :: string
  c_entry_price :: real
  c_stop_loss :: real
  c_take_profit :: real
  c_status :: string
  c_created_at :: string

text \<open>\<^verbatim>\<open>str(n)\<close> for an integer, as the f-string of the EMA key formats it.\<close>

fun str_nat :: "nat \<Rightarrow> string" where
  "str_nat n = (if n < 10 then [''0123456789'' ! n]
                else str_nat (n div 10) @ [''0123456789'' ! (n mod 10)])"

declare str_nat.simps [simp del]

definition str_int :: "int \<Rightarrow> string" where
  "str_int i = (if i < 0 then ''-'' @ str_nat (nat (- i)) else str_nat (nat i))"

text \<open>\<^verbatim>\<open>sub in s\<close> on strings.\<close>

fun contains :: "string \<Rightarrow> string \<Rightarrow> bool" where
  "contains sub [] = (sub = [])"
| "contains sub (c # cs) = (take (length sub) (c # cs) = sub \<or> contains sub cs)"

text \<open>\<^verbatim>\<open>data.get('indicators', {}).get(key)\<close>\<close>

definition indicator :: "market_tick \<Rightarrow> string \<Rightarrow> real option" where
  "indicator data key = (case indicators data of None \<Rightarrow> None | Some ind \<Rightarrow> map_of ind key)"

definition check_rsi :: "market_tick \<Rightarrow> params \<Rightarrow> string \<Rightarrow> bool" where
  "check_rsi data p mode =
     (case indicator data ''rsi'' of
        None \<Rightarrow> False
      | Some rsi \<Rightarrow>
          (let thr = (case threshold p of
                        None \<Rightarrow> (if mode = ''oversold'' then 30 else 70)
                      | Some t \<Rightarrow> t)
           in if mode = ''oversold'' then rsi < thr else rsi > thr))"

definition check_above_ema :: "market_tick \<Rightarrow> params \<Rightarrow> bool" where
  "check_above_ema data p =
     (let price = close data;
          ema = indicator data (''ema_'' @ str_int (case period p of None \<Rightarrow> 200 | Some n \<Rightarrow> n))
      in case price of
           None \<Rightarrow> False
         | Some pr \<Rightarrow> (case ema of None \<Rightarrow> False | Some e \<Rightarrow> pr > e))"

definition check_liquidity_sweep :: "market_tick \<Rightarrow> params \<Rightarrow> bool" where
  "check_liquidity_sweep data p = True"

definition check_order_block :: "market_tick \<Rightarrow> params \<Rightarrow> bool" where
  "check_order_block data p = True"

definition sessions :: "(string \<times> nat \<times> nat) list" where
  "sessions = [(''london'', 7, 16), (''new_york'', 13, 22), (''asia'', 0, 9)]"

text \<open>
  \<^verbatim>\<open>_check_session\<close>: a name that is not a key of \<^verbatim>\<open>sessions\<close> (also
  \<^verbatim>\<open>None\<close>) returns True.
\<close>

definition check_session :: "clock \<Rightarrow> string option \<Rightarrow> bool" where
  "check_session clk session_name =
     (let current_hour = hour clk
      in case session_name of
           None \<Rightarrow> True
         | Some n \<Rightarrow>
             (case map_of sessions n of
                None \<Rightarrow> True
              | Some (start, end) \<Rightarrow> start \<le> current_hour \<and> current_hour < end))"

text \<open>
  \<^verbatim>\<open>_evaluate_single_rule\<close>. Inside the price-action and the technical branch an
  unmatched condition falls through to the final \<^verbatim>\<open>return False\<close>.
\<close>

definition evaluate_single_rule :: "clock \<Rightarrow> rule \<Rightarrow> market_tick \<Rightarrow> bool" where
  "evaluate_single_rule clk r data =
     (let ty = rule_type r; cond = condition r; p = parameters r
      in if ty = Some ''price_action'' then
           (if cond = Some ''liquidity_sweep'' then check_liquidity_sweep data p
            else if cond = Some ''order_block'' then check_order_block data p
            else False)
         else if ty = Some ''technical'' then
           (if cond = Some ''rsi_oversold'' then check_rsi data p ''oversold''
            else if cond = Some ''rsi_overbought'' then check_rsi data p ''overbought''
            else if cond = Some ''above_ema'' then check_above_ema data p
            else False)
         else if ty = Some ''session'' then check_session clk cond
         else False)"

text \<open>The loop of \<^verbatim>\<open>_evaluate_rules\<close>, which leaves at the first failing rule.\<close>

fun rules_loop :: "clock \<Rightarrow> rule list \<Rightarrow> market_tick \<Rightarrow> bool" where
  "rules_loop clk [] data = True"
| "rules_loop clk (r # rs) data =
     (if \<not> evaluate_single_rule clk r data then False else rules_loop clk rs data)"

definition evaluate_rules :: "clock \<Rightarrow> rule list \<Rightarrow> market_tick \<Rightarrow> bool" where
  "evaluate_rules clk rs data = (if rs = [] then False else rules_loop clk rs data)"

text \<open>\<^verbatim>\<open>_generate_signal\<close> of the executor; the direction is always BUY.\<close>

definition executor_generate_signal :: "clock \<Rightarrow> strategy \<Rightarrow> market_tick \<Rightarrow> signal_candidate" where
  "executor_generate_signal clk strat data =
     (let sym = (case tick_symbol data of None \<Rightarrow> ''UNKNOWN'' | Some s \<Rightarrow> s);
          price = (case close data of None \<Rightarrow> 0 | Some c \<Rightarrow> c);
          sl_pips = (case stop_loss_pips strat of None \<Rightarrow> 20 | Some v \<Rightarrow> v);
          tp_pips = (case take_profit_pips strat of None \<Rightarrow> 40 | Some v \<Rightarrow> v);
          direction = ''BUY'';
          pip_value = (if \<not> contains ''JPY'' sym then 1 / 10000 else 1 / 100);
          stop_loss = (if direction = ''BUY'' then price - sl_pips * pip_value
                       else price + sl_pips * pip_value);
          take_profit = (if direction = ''BUY'' then price + tp_pips * pip_value
                         else price - tp_pips * pip_value)
      in \<lparr> c_strategy_id = strat_id strat, c_symbol = sym, c_direction = direction,
           c_entry_price = price, c_stop_loss = py_round stop_loss 5,
           c_take_profit = py_round take_profit 5, c_status = ''active'',
           c_created_at = isoformat clk \<rparr>)"

text \<open>\<^verbatim>\<open>StrategyExecutor.execute\<close>\<close>

definition execute :: "clock \<Rightarrow> strategy \<Rightarrow> market_tick \<Rightarrow> signal_candidate option" where
  "execute clk strat data =
     (if \<not> (case is_active strat of None \<Rightarrow> True | Some a \<Rightarrow> a) then None
      else if \<not> evaluate_rules clk (rules strat) data then None
      else Some (executor_generate_signal clk strat data))"

text \<open>
  The (type, condition) pairs \<^verbatim>\<open>_evaluate_single_rule\<close> sends to a predicate of
  their own, and the notion of a known pair used to state the fail-closed property: one
  of these five, or the type \<^verbatim>\<open>session\<close> with a name that is a key of
  \<^verbatim>\<open>sessions\<close>.
\<close>

definition dispatched_pairs :: "(string \<times> string) list" where
  "dispatched_pairs =
     [(''price_action'', ''liquidity_sweep''), (''price_action'', ''order_block''),
      (''technical'', ''rsi_oversold''), (''technical'', ''rsi_overbought''),
      (''technical'', ''above_ema'')]"

definition known_pair :: "string option \<Rightarrow> string option \<Rightarrow> bool" where
  "known_pair ty cond =
     (case ty of
        None \<Rightarrow> False
      | Some t \<Rightarrow>
          (case cond of
             None \<Rightarrow> False
           | Some c \<Rightarrow> (t, c) \<in> set dispatched_pairs \<or>
                       (t = ''session'' \<and> c \<in> set (map fst sessions))))"

section \<open>Signal pipeline (pipeline.py)\<close>

text \<open>The module-level instance \<^verbatim>\<open>signal_scorer = SignalScorer()\<close>.\<close>

definition the_signal_scorer :: signal_scorer where
  "the_signal_scorer = \<lparr> weights = WEIGHTS \<rparr>"

text \<open>
  \<^verbatim>\<open>market_data\<close> is an optional dict of names. \<^verbatim>\<open>market_data or {}\<close>
  and \<^verbatim>\<open>... if market_data else ...\<close> test its truth value: \<^verbatim>\<open>None\<close> and the
  empty dict are both false.
\<close>

text \<open>
  \<^verbatim>\<open>_calculate_probability\<close>. The simulator instance is built with the configured
  number of simulations; \<open>rng\<close> is the stream of draws it reads.
\<close>

definition calculate_probability ::
  "settings \<Rightarrow> backtest_result \<Rightarrow> (string \<times> string) list option \<Rightarrow> (nat \<Rightarrow> real) \<Rightarrow>
   error + real" where
  "calculate_probability cfg backtest market_data rng =
     (case py_float (win_rate backtest) of
        Inl e \<Rightarrow> Inl e
      | Inr prior_win_rate \<Rightarrow>
          (let current_conditions = (case market_data of
                                        None \<Rightarrow> []
                                      | Some d \<Rightarrow> if d \<noteq> [] then d else []);
               historical = \<lparr> rates = [(''trending_success_rate'', 7 / 10),
                                       (''ranging_success_rate'', 5 / 10)],
                              optimal_vol = Some ''normal'' \<rparr>;
               bayesian_prob = calculate_posterior_probability prior_win_rate
                                 current_conditions historical;
               mc_prob = probability_of_profit (MONTE_CARLO_SIMULATIONS cfg) rng
                           prior_win_rate 5 (- 2) 100 10000;
               final_probability = (bayesian_prob * (6 / 10)) + (mc_prob * (4 / 10))
           in Inr (py_round final_probability 2)))"

text \<open>\<^verbatim>\<open>_calculate_signal_score\<close> of the pipeline.\<close>

definition pipeline_signal_score ::
  "real \<Rightarrow> backtest_result \<Rightarrow> (string \<times> string) list option \<Rightarrow> real \<Rightarrow> error + real" where
  "pipeline_signal_score probability backtest market_data risk_reward =
     (case py_float (win_rate backtest) of
        Inl e \<Rightarrow> Inl e
      | Inr w \<Rightarrow>
     (case py_float (sharpe_ratio backtest) of
        Inl e \<Rightarrow> Inl e
      | Inr s \<Rightarrow>
     (case py_float (profit_factor backtest) of
        Inl e \<Rightarrow> Inl e
      | Inr pf \<Rightarrow>
          (let backtest_metrics = [(''win_rate'', Num w), (''sharpe_ratio'', Num s),
                                   (''profit_factor'', Num pf)];
               market_regime = (case market_data of
                                  None \<Rightarrow> ''unknown''
                                | Some d \<Rightarrow> if d \<noteq> [] then get_or d ''regime'' ''unknown''
                                            else ''unknown'');
               regime_performance = [(''trending'', 65), (''ranging'', 55), (''unknown'', 50)]
           in Inr (calculate_signal_score the_signal_scorer probability backtest_metrics
                     market_regime regime_performance risk_reward ''normal'' ''normal'')))))"

text \<open>The row of \<^verbatim>\<open>strategies\<close> the pipeline loads; it reads the name only.\<close>

record strategy_row =
  name :: string

text \<open>
  What \<^verbatim>\<open>gemini_client.analyze_signal_context\<close> returns. The client catches every
  failure of the call and returns \<^verbatim>\<open>_default_response()\<close>.
\<close>

record gemini_analysis =
  confidence_level :: string
  risk_rating :: string
  trade_explanation :: string
  position_sizing :: real

definition default_response :: gemini_analysis where
  "default_response =
     \<lparr> confidence_level = ''Low'', risk_rating = ''High'',
       trade_explanation = ''AI analysis unavailable - manual review required'',
       position_sizing = 1 \<rparr>"

text \<open>The \<^verbatim>\<open>Signal\<close> row built in step 8.\<close>

record signal =
  strategy_id :: string
  symbol :: string
  direction :: string
  entry_price :: real
  stop_loss :: real
  take_profit :: real
  probability_score :: real
  signal_score :: real
  s_confidence_level :: string
  s_risk_rating :: string
  s_trade_explanation :: string
  s_position_sizing :: real
  status :: string
  expires_at :: int

text \<open>
  What the pipeline does not compute itself: the two database lookups, the draws of the
  random generator, the reply of the enrichment call (\<open>None\<close> when the call failed),
  whether \<^verbatim>\<open>db.commit()\<close> and \<^verbatim>\<open>db.refresh()\<close> succeed, and the clock in
  hours.
\<close>

record environment =
  found_strategy :: "strategy_row option"
  latest_backtest :: "backtest_result option"
  draws :: "nat \<Rightarrow> real"
  gemini_reply :: "gemini_analysis option"
  commit_ok :: bool
  refresh_ok :: bool
  utcnow_hours :: int

text \<open>
  The outcome of one invocation: the returned dict (\<open>None\<close> for Python's None), the
  \<^verbatim>\<open>Signal\<close> objects constructed and added to the session, and the rows committed.
\<close>

record outcome =
  returned :: "signal option"
  constructed :: "signal list"
  committed :: "signal list"

definition rejected :: outcome where
  "rejected = \<lparr> returned = None, constructed = [], committed = [] \<rparr>"

text \<open>
  \<^verbatim>\<open>build_signal_context\<close> converts five columns of the backtest to float; the one
  not yet read by the earlier steps is \<^verbatim>\<open>expectancy\<close>.
\<close>

definition build_signal_context :: "strategy_row \<Rightarrow> backtest_result \<Rightarrow> error + unit" where
  "build_signal_context strat backtest =
     (case py_float (win_rate backtest) of Inl e \<Rightarrow> Inl e | Inr w \<Rightarrow>
     (case py_float (sharpe_ratio backtest) of Inl e \<Rightarrow> Inl e | Inr s \<Rightarrow>
     (case py_float (expectancy backtest) of Inl e \<Rightarrow> Inl e | Inr x \<Rightarrow>
     (case py_float (profit_factor backtest) of Inl e \<Rightarrow> Inl e | Inr pf \<Rightarrow> Inr ()))))"

text \<open>
  \<^verbatim>\<open>generate_signal\<close>. Every exception raised inside the \<^verbatim>\<open>try\<close> block ends in
  the handler, which returns None; what was constructed before it stays constructed.
\<close>

definition generate_signal ::
  "settings \<Rightarrow> environment \<Rightarrow> string \<Rightarrow> string \<Rightarrow> string \<Rightarrow> real \<Rightarrow> real \<Rightarrow> real \<Rightarrow>
   (string \<times> string) list option \<Rightarrow> outcome" where
  "generate_signal cfg env sid symb dir entry sl tp market_data =
     (case found_strategy env of
        None \<Rightarrow> rejected
      | Some strat \<Rightarrow>
     (case latest_backtest env of
        None \<Rightarrow> rejected
      | Some backtest \<Rightarrow>
     (case validate_backtest cfg backtest of
        Inl e \<Rightarrow> rejected
      | Inr ok \<Rightarrow>
          if \<not> ok then rejected
          else
     (case calculate_probability cfg backtest market_data (draws env) of
        Inl e \<Rightarrow> rejected
      | Inr prob \<Rightarrow>
          (let risk_reward_ratio = (if entry \<noteq> sl then \<bar>(tp - entry) / (entry - sl)\<bar> else 0)
           in
     (case pipeline_signal_score prob backtest market_data risk_reward_ratio of
        Inl e \<Rightarrow> rejected
      | Inr score \<Rightarrow>
          if score < MIN_SIGNAL_SCORE cfg then rejected
          else if prob < MIN_PROBABILITY cfg then rejected
          else
     (case build_signal_context strat backtest of
        Inl e \<Rightarrow> rejected
      | Inr u \<Rightarrow>
          (let gemini = (case gemini_reply env of None \<Rightarrow> default_response | Some a \<Rightarrow> a);
               sig = \<lparr> strategy_id = sid, symbol = symb, direction = dir,
                       entry_price = entry, stop_loss = sl, take_profit = tp,
                       probability_score = prob, signal_score = score,
                       s_confidence_level = confidence_level gemini,
                       s_risk_rating = risk_rating gemini,
                       s_trade_explanation = trade_explanation gemini,
                       s_position_sizing = position_sizing gemini,
                       status = ''active'',
                       expires_at = utcnow_hours env + SIGNAL_EXPIRY_HOURS cfg \<rparr>
           in if \<not> commit_ok env then
                \<lparr> returned = None, constructed = [sig], committed = [] \<rparr>
              else if \<not> refresh_ok env then
                \<lparr> returned = None, constructed = [sig], committed = [sig] \<rparr>
              else
                \<lparr> returned = Some sig, constructed = [sig], committed = [sig] \<rparr>))))))))"

section \<open>Sample data\<close>

text \<open>
  The backtest summary of the end-to-end scenario (150 trades, win rate 60, Sharpe 2.0,
  drawdown 10), and an environment in which the strategy and that summary are found,
  every random draw is 0 (so every simulated trade wins), the enrichment call fails and
  the database accepts the row.
\<close>

definition sample_backtest :: backtest_result where
  "sample_backtest =
     \<lparr> total_trades = Some 150, win_rate = Some 60, sharpe_ratio = Some 2,
       max_drawdown = Some 10, profit_factor = Some 2, expectancy = Some 1 \<rparr>"

definition sample_environment :: environment where
  "sample_environment =
     \<lparr> found_strategy = Some \<lparr> name = ''rsi_reversal'' \<rparr>,
       latest_backtest = Some sample_backtest,
       draws = (\<lambda>i. 0),
       gemini_reply = None,
       commit_ok = True, refresh_ok = True, utcnow_hours = 0 \<rparr>"

section \<open>Properties of rounding\<close>

lemma round_half_even_lower: "\<lfloor>y\<rfloor> \<le> round_half_even y"
  by (simp add: round_half_even_def Let_def)

lemma round_half_even_upper: "round_half_even y \<le> \<lceil>y\<rceil>"
  unfolding round_half_even_def Let_def
  by (auto simp: ceiling_altdef)

lemma py_round_nonneg:
  assumes "0 \<le> x"
  shows "0 \<le> py_round x n"
proof -
  from assms have "0 \<le> \<lfloor>x * 10 ^ n\<rfloor>" by simp
  with round_half_even_lower [of "x * 10 ^ n"]
  have "0 \<le> round_half_even (x * 10 ^ n)" by linarith
  then show ?thesis by (simp add: py_round_def)
qed

lemma py_round_le:
  assumes "x \<le> of_int k"
  shows "py_round x n \<le> of_int k"
proof -
  from assms have "x * 10 ^ n \<le> of_int (k * 10 ^ n)" by simp
  then have "\<lceil>x * 10 ^ n\<rceil> \<le> k * 10 ^ n" by (simp add: ceiling_le_iff)
  with round_half_even_upper [of "x * 10 ^ n"]
  have "round_half_even (x * 10 ^ n) \<le> k * 10 ^ n" by linarith
  then have "(of_int (round_half_even (x * 10 ^ n)) :: real) \<le> of_int (k * 10 ^ n)"
    by (simp only: of_int_le_iff)
  then show ?thesis by (simp add: py_round_def divide_le_eq)
qed

section \<open>The backtest gate\<close>

text \<open>
  Claim C7. The gate returns True exactly when the four columns are present and
  total trades \<open>\<ge>\<close> the configured minimum, win rate \<open>\<ge>\<close> the minimum, Sharpe ratio
  \<open>\<ge>\<close> the minimum and max drawdown \<open>\<le>\<close> the maximum. A summary whose total trades
  are one below the minimum is rejected (whatever the other columns hold); one whose
  total trades equal the minimum and whose other three conditions pass is accepted.
\<close>

theorem backtest_gate_conjunctive_inclusive:
  "(validate_backtest cfg b = Inr True \<longleftrightarrow>
      (\<exists>t w s d. total_trades b = Some t \<and> win_rate b = Some w \<and>
         sharpe_ratio b = Some s \<and> max_drawdown b = Some d \<and>
         MIN_BACKTEST_TRADES cfg \<le> t \<and> MIN_WIN_RATE cfg \<le> w \<and>
         MIN_SHARPE_RATIO cfg \<le> s \<and> d \<le> MAX_DRAWDOWN cfg))
   \<and> (total_trades b = Some (MIN_BACKTEST_TRADES cfg - 1) \<longrightarrow>
        validate_backtest cfg b = Inr False)
   \<and> (total_trades b = Some (MIN_BACKTEST_TRADES cfg) \<and> win_rate b = Some w' \<and>
        sharpe_ratio b = Some s' \<and> max_drawdown b = Some d' \<and>
        MIN_WIN_RATE cfg \<le> w' \<and> MIN_SHARPE_RATIO cfg \<le> s' \<and> d' \<le> MAX_DRAWDOWN cfg \<longrightarrow>
        validate_backtest cfg b = Inr True)"
proof (intro conjI impI)
  show "validate_backtest cfg b = Inr True \<longleftrightarrow>
      (\<exists>t w s d. total_trades b = Some t \<and> win_rate b = Some w \<and>
         sharpe_ratio b = Some s \<and> max_drawdown b = Some d \<and>
         MIN_BACKTEST_TRADES cfg \<le> t \<and> MIN_WIN_RATE cfg \<le> w \<and>
         MIN_SHARPE_RATIO cfg \<le> s \<and> d \<le> MAX_DRAWDOWN cfg)"
    by (auto simp: validate_backtest_def py_float_def split: option.splits)
next
  assume "total_trades b = Some (MIN_BACKTEST_TRADES cfg - 1)"
  then show "validate_backtest cfg b = Inr False"
    by (simp add: validate_backtest_def)
next
  assume "total_trades b = Some (MIN_BACKTEST_TRADES cfg) \<and> win_rate b = Some w' \<and>
        sharpe_ratio b = Some s' \<and> max_drawdown b = Some d' \<and>
        MIN_WIN_RATE cfg \<le> w' \<and> MIN_SHARPE_RATIO cfg \<le> s' \<and> d' \<le> MAX_DRAWDOWN cfg"
  then show "validate_backtest cfg b = Inr True"
    by (simp add: validate_backtest_def py_float_def)
qed

theorem backtest_gate_conjunctive_inclusive_witness:
  "validate_backtest default_settings
     \<lparr> total_trades = Some 99, win_rate = Some 60, sharpe_ratio = Some 2,
       max_drawdown = Some 10, profit_factor = Some 2, expectancy = Some 1 \<rparr> = Inr False
   \<and> validate_backtest default_settings
     \<lparr> total_trades = Some 100, win_rate = Some 60, sharpe_ratio = Some 2,
       max_drawdown = Some 10, profit_factor = Some 2, expectancy = Some 1 \<rparr> = Inr True"
  using backtest_gate_conjunctive_inclusive [of default_settings
          "\<lparr> total_trades = Some 99, win_rate = Some 60, sharpe_ratio = Some 2,
             max_drawdown = Some 10, profit_factor = Some 2, expectancy = Some 1 \<rparr>"]
        backtest_gate_conjunctive_inclusive [of default_settings
          "\<lparr> total_trades = Some 100, win_rate = Some 60, sharpe_ratio = Some 2,
             max_drawdown = Some 10, profit_factor = Some 2, expectancy = Some 1 \<rparr>" 60 2 10]
  by (simp add: default_settings_def)

section \<open>The risk/reward factor\<close>

text \<open>
  Claim C8. The risk/reward factor is the piecewise function of the ratio alone:
  10 from 3 upwards, \<open>7 + 3 (r - 2)\<close> on [2, 3), \<open>3 + 4 (r - 1)\<close> on [1, 2) and
  \<open>max 0 (3 r)\<close> below 1. It is monotonic, and it maps 1 to 3, 2 to 7, 3 to 10,
  0.5 to 1.5 and 4 to 10.
\<close>

theorem risk_reward_factor_piecewise_monotonic:
  "calculate_risk_reward_factor r =
     (if 3 \<le> r then 10
      else if 2 \<le> r \<and> r < 3 then 7 + 3 * (r - 2)
      else if 1 \<le> r \<and> r < 2 then 3 + 4 * (r - 1)
      else max 0 (3 * r))
   \<and> (r \<le> r' \<longrightarrow> calculate_risk_reward_factor r \<le> calculate_risk_reward_factor r')
   \<and> calculate_risk_reward_factor 1 = 3
   \<and> calculate_risk_reward_factor 2 = 7
   \<and> calculate_risk_reward_factor 3 = 10
   \<and> calculate_risk_reward_factor (5 / 10) = 15 / 10
   \<and> calculate_risk_reward_factor 4 = 10"
proof (intro conjI impI)
  show "calculate_risk_reward_factor r =
     (if 3 \<le> r then 10
      else if 2 \<le> r \<and> r < 3 then 7 + 3 * (r - 2)
      else if 1 \<le> r \<and> r < 2 then 3 + 4 * (r - 1)
      else max 0 (3 * r))"
    by (simp add: calculate_risk_reward_factor_def mult.commute)
next
  assume "r \<le> r'"
  then show "calculate_risk_reward_factor r \<le> calculate_risk_reward_factor r'"
    by (auto simp: calculate_risk_reward_factor_def max_def)
qed (simp_all add: calculate_risk_reward_factor_def)

theorem risk_reward_factor_piecewise_monotonic_witness:
  "calculate_risk_reward_factor (15 / 10) = 5
   \<and> calculate_risk_reward_factor (25 / 10) = 85 / 10
   \<and> calculate_risk_reward_factor (15 / 10) \<le> calculate_risk_reward_factor (25 / 10)"
  using risk_reward_factor_piecewise_monotonic [of "15 / 10" "25 / 10"]
        risk_reward_factor_piecewise_monotonic [of "25 / 10" "25 / 10"]
  by simp

section \<open>The scorer\<close>

text \<open>
  Claim C9, as amended. For a non-empty custom weight map: when the values do not sum
  to 1.0 within the tolerance 0.01 the constructor raises ValueError, and when they do
  the map is stored unchanged. (The empty map does not reach the check: the guard
  \<^verbatim>\<open>if weights:\<close> sends it to the default weights.)
\<close>

theorem scorer_weights_validated_when_nonempty:
  "w \<noteq> [] \<longrightarrow>
     (\<bar>sum_list (map snd w) - 1\<bar> > 1 / 100 \<longrightarrow> SignalScorer_init (Some w) = Inl ValueError)
   \<and> (\<bar>sum_list (map snd w) - 1\<bar> \<le> 1 / 100 \<longrightarrow>
        SignalScorer_init (Some w) = Inr \<lparr> weights = w \<rparr>)"
  by (simp add: SignalScorer_init_def Let_def)

theorem scorer_weights_validated_when_nonempty_witness:
  "SignalScorer_init (Some [(''probability_score'', 5 / 10), (''risk_reward_ratio'', 4 / 10)])
     = Inl ValueError
   \<and> SignalScorer_init (Some [(''probability_score'', 6 / 10), (''risk_reward_ratio'', 395 / 1000)])
     = Inr \<lparr> weights = [(''probability_score'', 6 / 10), (''risk_reward_ratio'', 395 / 1000)] \<rparr>"
  using scorer_weights_validated_when_nonempty
          [of "[(''probability_score'', 5 / 10), (''risk_reward_ratio'', 4 / 10)]"]
        scorer_weights_validated_when_nonempty
          [of "[(''probability_score'', 6 / 10), (''risk_reward_ratio'', 395 / 1000)]"]
  by simp

text \<open>
  Claim C9 as stated fails at the empty weight map: its values sum to 0, which is not
  within 0.01 of 1.0, yet the constructor raises nothing and the scorer holds the default
  weights, not the map it was given.
\<close>

theorem scorer_empty_weights_counterexample:
  "\<bar>sum_list (map snd ([] :: (string \<times> real) list)) - 1\<bar> > 1 / 100
   \<and> SignalScorer_init (Some []) = Inr \<lparr> weights = WEIGHTS \<rparr>
   \<and> SignalScorer_init (Some []) \<noteq> Inl ValueError
   \<and> SignalScorer_init (Some []) \<noteq> Inr \<lparr> weights = [] \<rparr>"
  by (simp add: SignalScorer_init_def WEIGHTS_def)

text \<open>
  Claim C3. For all inputs the score lies in [0, 10]. When the scorer's weight map holds
  the five weights, the score is the weighted sum of the five factors, clamped to
  [0, 10] and rounded to one decimal; when the body fails (a weight is missing, the one
  failure the body has on numbers) the score is the neutral 5.0 and no error leaves the
  function.
\<close>

theorem signal_score_clamped_rounded_neutral_on_failure:
  "0 \<le> calculate_signal_score sc p m reg rp rr cv ov
   \<and> calculate_signal_score sc p m reg rp rr cv ov \<le> 10
   \<and> (map_of (weights sc) ''probability_score'' = Some w1 \<and>
      map_of (weights sc) ''backtest_performance'' = Some w2 \<and>
      map_of (weights sc) ''market_regime_match'' = Some w3 \<and>
      map_of (weights sc) ''risk_reward_ratio'' = Some w4 \<and>
      map_of (weights sc) ''volatility_match'' = Some w5 \<longrightarrow>
        calculate_signal_score sc p m reg rp rr cv ov =
          py_round (max 0 (min 10
            ((p / 100) * 10 * w1 + calculate_performance_factor m * w2 +
             calculate_regime_factor reg rp * w3 + calculate_risk_reward_factor rr * w4 +
             calculate_volatility_factor cv ov * w5))) 1)
   \<and> ((\<exists>e. weighted_score sc p m reg rp rr cv ov = Inl e) \<longrightarrow>
        calculate_signal_score sc p m reg rp rr cv ov = 5)
   \<and> ((\<exists>k \<in> set [''probability_score'', ''backtest_performance'', ''market_regime_match'',
                   ''risk_reward_ratio'', ''volatility_match'']. map_of (weights sc) k = None) \<longrightarrow>
        calculate_signal_score sc p m reg rp rr cv ov = 5)"
proof (intro conjI impI)
  show "0 \<le> calculate_signal_score sc p m reg rp rr cv ov"
  proof (cases "weighted_score sc p m reg rp rr cv ov")
    case (Inl e)
    then show ?thesis by (simp add: calculate_signal_score_def)
  next
    case (Inr s)
    have "0 \<le> py_round (max 0 (min 10 s)) 1" by (rule py_round_nonneg) simp
    with Inr show ?thesis by (simp add: calculate_signal_score_def Let_def)
  qed
next
  show "calculate_signal_score sc p m reg rp rr cv ov \<le> 10"
  proof (cases "weighted_score sc p m reg rp rr cv ov")
    case (Inl e)
    then show ?thesis by (simp add: calculate_signal_score_def)
  next
    case (Inr s)
    have "py_round (max 0 (min 10 s)) 1 \<le> of_int 10" by (rule py_round_le) simp
    with Inr show ?thesis by (simp add: calculate_signal_score_def Let_def)
  qed
next
  assume "map_of (weights sc) ''probability_score'' = Some w1 \<and>
      map_of (weights sc) ''backtest_performance'' = Some w2 \<and>
      map_of (weights sc) ''market_regime_match'' = Some w3 \<and>
      map_of (weights sc) ''risk_reward_ratio'' = Some w4 \<and>
      map_of (weights sc) ''volatility_match'' = Some w5"
  then show "calculate_signal_score sc p m reg rp rr cv ov =
          py_round (max 0 (min 10
            ((p / 100) * 10 * w1 + calculate_performance_factor m * w2 +
             calculate_regime_factor reg rp * w3 + calculate_risk_reward_factor rr * w4 +
             calculate_volatility_factor cv ov * w5))) 1"
    by (simp add: calculate_signal_score_def weighted_score_def subscript_def Let_def)
next
  assume "\<exists>e. weighted_score sc p m reg rp rr cv ov = Inl e"
  then show "calculate_signal_score sc p m reg rp rr cv ov = 5"
    by (auto simp: calculate_signal_score_def)
next
  assume "\<exists>k \<in> set [''probability_score'', ''backtest_performance'', ''market_regime_match'',
                   ''risk_reward_ratio'', ''volatility_match'']. map_of (weights sc) k = None"
  then have "\<exists>e. weighted_score sc p m reg rp rr cv ov = Inl e"
    by (auto simp: weighted_score_def subscript_def Let_def split: option.splits)
  then show "calculate_signal_score sc p m reg rp rr cv ov = 5"
    by (auto simp: calculate_signal_score_def)
qed

theorem signal_score_clamped_rounded_neutral_on_failure_witness:
  "calculate_signal_score the_signal_scorer 75
     [(''win_rate'', Num 60), (''sharpe_ratio'', Num 2)] ''trending'' [(''trending'', 70)]
     (25 / 10) ''normal'' ''normal'' = 74 / 10
   \<and> calculate_signal_score \<lparr> weights = [(''probability_score'', 1)] \<rparr> 75
     [(''win_rate'', Num 60), (''sharpe_ratio'', Num 2)] ''trending'' [(''trending'', 70)]
     (25 / 10) ''normal'' ''normal'' = 5"
  using signal_score_clamped_rounded_neutral_on_failure
          [of the_signal_scorer 75 "[(''win_rate'', Num 60), (''sharpe_ratio'', Num 2)]"
              "''trending''" "[(''trending'', 70)]" "25 / 10" "''normal''" "''normal''"
              "35 / 100" "25 / 100" "20 / 100" "15 / 100" "5 / 100"]
        signal_score_clamped_rounded_neutral_on_failure
          [of "\<lparr> weights = [(''probability_score'', 1)] \<rparr>" 75
              "[(''win_rate'', Num 60), (''sharpe_ratio'', Num 2)]"
              "''trending''" "[(''trending'', 70)]" "25 / 10" "''normal''" "''normal''"]
  by (simp add: the_signal_scorer_def WEIGHTS_def calculate_performance_factor_def
        calculate_regime_factor_def calculate_risk_reward_factor_def
        calculate_volatility_factor_def volatility_scale_def get_or_def float_of_def
        py_round_def round_half_even_def Let_def)

section \<open>The Bayesian estimator\<close>

lemma calculate_likelihood_bounds:
  "1 / 10 \<le> calculate_likelihood c h out \<and> calculate_likelihood c h out \<le> 9 / 10"
  by (simp add: calculate_likelihood_def Let_def)

lemma marginal_lower:
  fixes ls lf p :: real
  assumes "1 / 10 \<le> ls" "1 / 10 \<le> lf" "0 \<le> p" "p \<le> 1"
  shows "1 / 10 \<le> ls * p + lf * (1 - p)"
proof -
  have "1 / 10 * p \<le> ls * p" using assms by (intro mult_right_mono) auto
  moreover have "1 / 10 * (1 - p) \<le> lf * (1 - p)" using assms by (intro mult_right_mono) auto
  ultimately have "1 / 10 * p + 1 / 10 * (1 - p) \<le> ls * p + lf * (1 - p)" by (rule add_mono)
  then show ?thesis by argo
qed

text \<open>
  Claim C10. For a prior win rate in [0, 100] and any conditions and performance
  table, both likelihoods lie in [0.1, 0.9], the marginal probability of the conditions
  is at least 0.1 and so never zero, and the posterior is the Bayes quotient clamped to
  [0, 100]: the early return of the prior is not taken.
\<close>

theorem posterior_marginal_never_zero:
  assumes "0 \<le> prior" and "prior \<le> 100"
  shows "(let ls = calculate_likelihood c h ''success'';
              lf = calculate_likelihood c h ''failure'';
              marginal = ls * (prior / 100) + lf * (1 - prior / 100)
          in 1 / 10 \<le> ls \<and> ls \<le> 9 / 10 \<and> 1 / 10 \<le> lf \<and> lf \<le> 9 / 10 \<and>
             1 / 10 \<le> marginal \<and> marginal \<noteq> 0 \<and>
             calculate_posterior_probability prior c h =
               max 0 (min 100 (ls * (prior / 100) / marginal * 100)))"
proof -
  let ?ls = "calculate_likelihood c h ''success''"
  let ?lf = "calculate_likelihood c h ''failure''"
  let ?m = "?ls * (prior / 100) + ?lf * (1 - prior / 100)"
  have b: "1 / 10 \<le> ?ls" "?ls \<le> 9 / 10" "1 / 10 \<le> ?lf" "?lf \<le> 9 / 10"
    using calculate_likelihood_bounds [of c h] by blast+
  have m: "1 / 10 \<le> ?m"
    using b assms by (intro marginal_lower) auto
  then have nz: "?m \<noteq> 0" by linarith
  have post: "calculate_posterior_probability prior c h =
                max 0 (min 100 (?ls * (prior / 100) / ?m * 100))"
    unfolding calculate_posterior_probability_def Let_def using nz by (simp only: if_False)
  show ?thesis unfolding Let_def using b m nz post by blast
qed

theorem posterior_marginal_never_zero_witness:
  "calculate_likelihood [(''regime'', ''trending'')]
     \<lparr> rates = [(''trending_success_rate'', 7 / 10)], optimal_vol = Some ''normal'' \<rparr>
     ''success'' = 84 / 100
   \<and> calculate_posterior_probability 0 [(''regime'', ''trending'')]
     \<lparr> rates = [(''trending_success_rate'', 7 / 10)], optimal_vol = Some ''normal'' \<rparr> = 0
   \<and> calculate_posterior_probability 100 [(''regime'', ''trending'')]
     \<lparr> rates = [(''trending_success_rate'', 7 / 10)], optimal_vol = Some ''normal'' \<rparr> = 100"
  using posterior_marginal_never_zero [of 0 "[(''regime'', ''trending'')]"
          "\<lparr> rates = [(''trending_success_rate'', 7 / 10)], optimal_vol = Some ''normal'' \<rparr>"]
        posterior_marginal_never_zero [of 100 "[(''regime'', ''trending'')]"
          "\<lparr> rates = [(''trending_success_rate'', 7 / 10)], optimal_vol = Some ''normal'' \<rparr>"]
  by (simp add: calculate_likelihood_def get_or_def Let_def)

text \<open>
  Claim C5, as amended. When the prior win rate lies strictly between 0 and 100 and the
  (clamped) likelihood of the current conditions given success exceeds the one given
  failure, the posterior exceeds the prior.
\<close>

theorem posterior_exceeds_prior_when_success_likelier:
  assumes "0 < prior" and "prior < 100"
    and "calculate_likelihood c h ''failure'' < calculate_likelihood c h ''success''"
  shows "prior < calculate_posterior_probability prior c h"
proof -
  define ls where "ls = calculate_likelihood c h ''success''"
  define lf where "lf = calculate_likelihood c h ''failure''"
  define p where "p = prior / 100"
  define m where "m = ls * p + lf * (1 - p)"
  have p: "0 < p" "p < 1" using assms by (simp_all add: p_def)
  have b: "1 / 10 \<le> ls" "1 / 10 \<le> lf"
    using calculate_likelihood_bounds [of c h] by (simp_all add: ls_def lf_def)
  have mpos: "0 < m" using marginal_lower [of ls lf p] b p by (simp add: m_def)
  have "lf * (1 - p) < ls * (1 - p)" using assms(3) p by (simp add: ls_def lf_def)
  then have "m < ls" by (simp add: m_def algebra_simps)
  then have "p * m < ls * p" using p by (simp add: mult.commute)
  then have "p < ls * p / m" using mpos by (simp add: pos_less_divide_eq)
  then have q: "prior < ls * p / m * 100" by (simp add: p_def)
  have "calculate_posterior_probability prior c h = max 0 (min 100 (ls * p / m * 100))"
    using mpos by (simp add: calculate_posterior_probability_def Let_def ls_def lf_def m_def p_def)
  with q assms show ?thesis by (simp add: max_def min_def)
qed

text \<open>
  The example of claim C5: prior 60, trending regime with success rate 0.7, no failure
  rate in the table (so 0.5), matching volatility.
\<close>

theorem posterior_exceeds_prior_when_success_likelier_witness:
  "calculate_likelihood [(''regime'', ''trending''), (''volatility'', ''normal'')]
     \<lparr> rates = [(''trending_success_rate'', 7 / 10), (''ranging_success_rate'', 4 / 10)],
       optimal_vol = Some ''normal'' \<rparr> ''failure''
   < calculate_likelihood [(''regime'', ''trending''), (''volatility'', ''normal'')]
     \<lparr> rates = [(''trending_success_rate'', 7 / 10), (''ranging_success_rate'', 4 / 10)],
       optimal_vol = Some ''normal'' \<rparr> ''success''
   \<and> 60 < calculate_posterior_probability 60
     [(''regime'', ''trending''), (''volatility'', ''normal'')]
     \<lparr> rates = [(''trending_success_rate'', 7 / 10), (''ranging_success_rate'', 4 / 10)],
       optimal_vol = Some ''normal'' \<rparr>"
proof -
  let ?c = "[(''regime'', ''trending''), (''volatility'', ''normal'')]"
  let ?h = "\<lparr> rates = [(''trending_success_rate'', 7 / 10), (''ranging_success_rate'', 4 / 10)],
              optimal_vol = Some ''normal'' \<rparr>"
  have l: "calculate_likelihood ?c ?h ''failure'' < calculate_likelihood ?c ?h ''success''"
    by (simp add: calculate_likelihood_def get_or_def Let_def)
  have "(60 :: real) < calculate_posterior_probability 60 ?c ?h"
    by (rule posterior_exceeds_prior_when_success_likelier [OF _ _ l]) simp_all
  with l show ?thesis by blast
qed

text \<open>
  Claim C5 as stated fails on the performance table the pipeline itself passes: in the
  ranging regime the success rate 0.5 exceeds the prior 0.4, but the failure rate
  defaults to the same 0.5, both likelihoods are 0.6, and the posterior is the prior 40.
\<close>

theorem posterior_not_above_prior_counterexample:
  "(40 :: real) / 100 <
     get_or [(''trending_success_rate'', 7 / 10), (''ranging_success_rate'', 5 / 10)]
       ''ranging_success_rate'' (1 / 2)
   \<and> calculate_posterior_probability 40 [(''regime'', ''ranging''), (''volatility'', ''normal'')]
       \<lparr> rates = [(''trending_success_rate'', 7 / 10), (''ranging_success_rate'', 5 / 10)],
         optimal_vol = Some ''normal'' \<rparr> = 40
   \<and> \<not> (40 < calculate_posterior_probability 40
            [(''regime'', ''ranging''), (''volatility'', ''normal'')]
            \<lparr> rates = [(''trending_success_rate'', 7 / 10), (''ranging_success_rate'', 5 / 10)],
              optimal_vol = Some ''normal'' \<rparr>)"
  by (simp add: calculate_posterior_probability_def calculate_likelihood_def get_or_def Let_def)

section \<open>The strategy executor\<close>

lemma rules_loop_all:
  "rules_loop clk rs data = (\<forall>r \<in> set rs. evaluate_single_rule clk r data)"
  by (induction rs) auto

text \<open>
  Claim C2. \<^verbatim>\<open>execute\<close> returns a candidate if and only if the strategy is active
  (its flag is not false; a missing flag counts as active), its rule list is non-empty
  and every rule of the list evaluates true; the candidate is then the one
  \<^verbatim>\<open>_generate_signal\<close> builds. A strategy whose flag is false, or with no rules,
  yields none for every tick.
\<close>

theorem execute_iff_active_and_all_rules_pass:
  "(execute clk st data \<noteq> None \<longleftrightarrow>
      (is_active st \<noteq> Some False \<and> rules st \<noteq> [] \<and>
       (\<forall>r \<in> set (rules st). evaluate_single_rule clk r data)))
   \<and> (execute clk st data \<noteq> None \<longrightarrow>
        execute clk st data = Some (executor_generate_signal clk st data))
   \<and> (is_active st = Some False \<longrightarrow> execute clk st data = None)
   \<and> (rules st = [] \<longrightarrow> execute clk st data = None)"
  by (auto simp: execute_def evaluate_rules_def rules_loop_all split: option.splits)

theorem execute_iff_active_and_all_rules_pass_witness:
  "execute \<lparr> hour = 3, isoformat = ''2024-01-01T03:00:00'' \<rparr>
     \<lparr> strat_id = Some ''s1'', is_active = Some True,
       rules = [\<lparr> rule_type = Some ''technical'', condition = Some ''rsi_oversold'',
                  parameters = \<lparr> threshold = Some 30, period = None \<rparr> \<rparr>],
       stop_loss_pips = Some 20, take_profit_pips = Some 40 \<rparr>
     \<lparr> tick_symbol = Some ''EURUSD'', close = Some 100, indicators = Some [(''rsi'', 25)] \<rparr>
   = Some \<lparr> c_strategy_id = Some ''s1'', c_symbol = ''EURUSD'', c_direction = ''BUY'',
            c_entry_price = 100, c_stop_loss = 99998 / 1000, c_take_profit = 100004 / 1000,
            c_status = ''active'', c_created_at = ''2024-01-01T03:00:00'' \<rparr>
   \<and> execute \<lparr> hour = 3, isoformat = ''2024-01-01T03:00:00'' \<rparr>
     \<lparr> strat_id = Some ''s1'', is_active = Some False,
       rules = [\<lparr> rule_type = Some ''technical'', condition = Some ''rsi_oversold'',
                  parameters = \<lparr> threshold = Some 30, period = None \<rparr> \<rparr>],
       stop_loss_pips = Some 20, take_profit_pips = Some 40 \<rparr>
     \<lparr> tick_symbol = Some ''EURUSD'', close = Some 100, indicators = Some [(''rsi'', 25)] \<rparr>
   = None
   \<and> execute \<lparr> hour = 3, isoformat = ''2024-01-01T03:00:00'' \<rparr>
     \<lparr> strat_id = Some ''s1'', is_active = Some True, rules = [],
       stop_loss_pips = Some 20, take_profit_pips = Some 40 \<rparr>
     \<lparr> tick_symbol = Some ''EURUSD'', close = Some 100, indicators = Some [(''rsi'', 25)] \<rparr>
   = None"
  using execute_iff_active_and_all_rules_pass
          [of "\<lparr> hour = 3, isoformat = ''2024-01-01T03:00:00'' \<rparr>"
              "\<lparr> strat_id = Some ''s1'', is_active = Some True,
                 rules = [\<lparr> rule_type = Some ''technical'', condition = Some ''rsi_oversold'',
                            parameters = \<lparr> threshold = Some 30, period = None \<rparr> \<rparr>],
                 stop_loss_pips = Some 20, take_profit_pips = Some 40 \<rparr>"
              "\<lparr> tick_symbol = Some ''EURUSD'', close = Some 100,
                 indicators = Some [(''rsi'', 25)] \<rparr>"]
        execute_iff_active_and_all_rules_pass
          [of "\<lparr> hour = 3, isoformat = ''2024-01-01T03:00:00'' \<rparr>"
              "\<lparr> strat_id = Some ''s1'', is_active = Some False,
                 rules = [\<lparr> rule_type = Some ''technical'', condition = Some ''rsi_oversold'',
                            parameters = \<lparr> threshold = Some 30, period = None \<rparr> \<rparr>],
                 stop_loss_pips = Some 20, take_profit_pips = Some 40 \<rparr>"
              "\<lparr> tick_symbol = Some ''EURUSD'', close = Some 100,
                 indicators = Some [(''rsi'', 25)] \<rparr>"]
        execute_iff_active_and_all_rules_pass
          [of "\<lparr> hour = 3, isoformat = ''2024-01-01T03:00:00'' \<rparr>"
              "\<lparr> strat_id = Some ''s1'', is_active = Some True, rules = [],
                 stop_loss_pips = Some 20, take_profit_pips = Some 40 \<rparr>"
              "\<lparr> tick_symbol = Some ''EURUSD'', close = Some 100,
                 indicators = Some [(''rsi'', 25)] \<rparr>"]
  by (simp add: evaluate_single_rule_def check_rsi_def indicator_def
        executor_generate_signal_def py_round_def round_half_even_def Let_def)

text \<open>
  The other branches of the dispatcher fail closed: a rule whose (type, condition) pair
  is not a known pair and whose type is not \<^verbatim>\<open>session\<close> evaluates to false, and
  a strategy containing such a rule produces no candidate for any tick.
\<close>

lemma unknown_non_session_rule_fails_closed:
  assumes "\<not> known_pair (rule_type r) (condition r)"
    and "rule_type r \<noteq> Some ''session''"
  shows "\<not> evaluate_single_rule clk r data"
    and "r \<in> set (rules st) \<Longrightarrow> execute clk st data = None"
proof -
  show f: "\<not> evaluate_single_rule clk r data"
    using assms
    by (auto simp: evaluate_single_rule_def known_pair_def dispatched_pairs_def Let_def)
  assume "r \<in> set (rules st)"
  with f show "execute clk st data = None"
    by (auto simp: execute_def evaluate_rules_def rules_loop_all)
qed

lemma unknown_technical_rule_example:
  "\<not> known_pair (Some ''technical'') (Some ''macd_cross'')
   \<and> \<not> evaluate_single_rule \<lparr> hour = 3, isoformat = ''2024-01-01T03:00:00'' \<rparr>
       \<lparr> rule_type = Some ''technical'', condition = Some ''macd_cross'',
         parameters = \<lparr> threshold = None, period = None \<rparr> \<rparr>
       \<lparr> tick_symbol = Some ''EURUSD'', close = Some 100, indicators = Some [(''rsi'', 25)] \<rparr>"
  by (simp add: known_pair_def dispatched_pairs_def sessions_def evaluate_single_rule_def)

text \<open>
  Claim C6. A rule whose (type, condition) pair is not a known pair should evaluate to
  false, and a strategy containing it should never produce a candidate. The session
  branch does not do so. At the rule (session, tokyo) the pair is not a known pair, yet
  \<^verbatim>\<open>_check_session\<close> returns True for a name that is not a key of
  \<^verbatim>\<open>sessions\<close>: the rule evaluates to true and a strategy whose only rule it is
  produces a candidate.
\<close>

theorem unknown_session_rule_fails_open:
  "\<not> known_pair (Some ''session'') (Some ''tokyo'')
   \<and> evaluate_single_rule \<lparr> hour = 3, isoformat = ''2024-01-01T03:00:00'' \<rparr>
       \<lparr> rule_type = Some ''session'', condition = Some ''tokyo'',
         parameters = \<lparr> threshold = None, period = None \<rparr> \<rparr>
       \<lparr> tick_symbol = Some ''EURUSD'', close = Some 100, indicators = None \<rparr>
   \<and> execute \<lparr> hour = 3, isoformat = ''2024-01-01T03:00:00'' \<rparr>
       \<lparr> strat_id = Some ''s1'', is_active = Some True,
         rules = [\<lparr> rule_type = Some ''session'', condition = Some ''tokyo'',
                    parameters = \<lparr> threshold = None, period = None \<rparr> \<rparr>],
         stop_loss_pips = None, take_profit_pips = None \<rparr>
       \<lparr> tick_symbol = Some ''EURUSD'', close = Some 100, indicators = None \<rparr> \<noteq> None"
  by (simp add: known_pair_def dispatched_pairs_def sessions_def evaluate_single_rule_def
        check_session_def execute_def evaluate_rules_def)

section \<open>The Monte Carlo estimator\<close>

lemma length_run_simulations:
  "length (run_simulations rng pw aw al nt ic n cur) = n"
  by (induction n arbitrary: cur) (auto split: prod.splits)

lemma probability_of_profit_range:
  assumes "0 < n"
  shows "0 \<le> probability_of_profit n rng wr aw al nt ic \<and>
         probability_of_profit n rng wr aw al nt ic \<le> 100"
proof -
  let ?fc = "run_simulations rng (wr / 100) aw al (nat nt) ic (nat n) 0"
  let ?k = "length (filter (\<lambda>c. c > ic) ?fc)"
  let ?q = "real ?k / of_int n * 100"
  have "?k \<le> length ?fc" by (rule length_filter_le)
  then have k: "?k \<le> nat n" by (simp add: length_run_simulations)
  then have "real ?k \<le> of_int n" using assms by linarith
  then have q1: "?q \<le> 100" using assms by (simp add: divide_le_eq)
  have q0: "0 \<le> ?q" using assms by simp
  have "0 \<le> py_round ?q 2" using q0 by (rule py_round_nonneg)
  moreover have "py_round ?q 2 \<le> of_int 100" by (rule py_round_le) (use q1 in simp)
  ultimately show ?thesis by (simp add: probability_of_profit_def Let_def)
qed

text \<open>
  When every draw falls below the win probability, every trade wins, the capital grows
  by the factor \<open>1 + avg_win / 100\<close> per trade, and every simulated sequence ends in
  profit.
\<close>

lemma run_trades_all_wins:
  assumes "\<forall>i. rng i < pw" "0 < aw" "0 < cap"
  shows "run_trades rng pw aw al k cap cur = (cap * (1 + aw / 100) ^ k, cur + k)"
  using assms(3)
proof (induction k arbitrary: cap cur)
  case 0
  then show ?case by simp
next
  case (Suc k)
  have pos: "0 < cap + cap * (aw / 100)" using Suc.prems assms(2) by (simp add: add_pos_pos)
  have "run_trades rng pw aw al (Suc k) cap cur =
        run_trades rng pw aw al k (cap + cap * (aw / 100)) (Suc cur)"
    using assms(1) pos by (simp add: Let_def)
  also have "\<dots> = ((cap + cap * (aw / 100)) * (1 + aw / 100) ^ k, Suc cur + k)"
    by (rule Suc.IH [OF pos])
  also have "\<dots> = (cap * (1 + aw / 100) ^ Suc k, cur + Suc k)"
    by (simp add: algebra_simps)
  finally show ?case .
qed

lemma run_simulations_all_wins:
  assumes "\<forall>i. rng i < pw" "0 < aw" "0 < ic"
  shows "run_simulations rng pw aw al nt ic n cur = replicate n (ic * (1 + aw / 100) ^ nt)"
  by (induction n arbitrary: cur) (simp_all add: run_trades_all_wins [OF assms])

lemma probability_of_profit_all_wins:
  assumes "\<forall>i. rng i < wr / 100" "0 < aw" "0 < ic" "0 < n" "0 < nt"
  shows "probability_of_profit n rng wr aw al nt ic = 100"
proof -
  have "1 < (1 + aw / 100) ^ nat nt" using assms by (intro one_less_power) auto
  then have gt: "ic < ic * (1 + aw / 100) ^ nat nt" using assms(3) by simp
  have "length (filter (\<lambda>c. c > ic) (replicate (nat n) (ic * (1 + aw / 100) ^ nat nt))) = nat n"
    using gt by simp
  then have "probability_of_profit n rng wr aw al nt ic =
             py_round (real (nat n) / of_int n * 100) 2"
    by (simp add: probability_of_profit_def Let_def run_simulations_all_wins [OF assms(1-3)])
  also have "real (nat n) / of_int n * 100 = 100" using assms(4) by simp
  also have "py_round 100 2 = 100" by (simp add: py_round_def round_half_even_def Let_def)
  finally show ?thesis .
qed

section \<open>The combined probability\<close>

lemma posterior_range:
  assumes "0 \<le> prior" "prior \<le> 100"
  shows "0 \<le> calculate_posterior_probability prior c h \<and>
         calculate_posterior_probability prior c h \<le> 100"
  using assms by (simp add: calculate_posterior_probability_def Let_def)

text \<open>
  Claim C4. For a backtest win rate in [0, 100] (and a positive number of simulations)
  the pipeline's combined probability is
  \<open>round (0.6 * posterior + 0.4 * Monte Carlo profit probability, 2)\<close> and lies in
  [0, 100], whatever the market data and the random draws.
\<close>

theorem combined_probability_weighted_and_bounded:
  assumes "win_rate b = Some w" and "0 \<le> w" and "w \<le> 100"
    and "0 < MONTE_CARLO_SIMULATIONS cfg"
  shows "\<exists>p. calculate_probability cfg b md rng = Inr p
     \<and> p = py_round
           (6 / 10 * calculate_posterior_probability w (case md of None \<Rightarrow> [] | Some d \<Rightarrow> d)
                      \<lparr> rates = [(''trending_success_rate'', 7 / 10),
                                 (''ranging_success_rate'', 5 / 10)],
                        optimal_vol = Some ''normal'' \<rparr>
            + 4 / 10 * probability_of_profit (MONTE_CARLO_SIMULATIONS cfg) rng w 5 (- 2)
                         100 10000) 2
     \<and> 0 \<le> p \<and> p \<le> 100"
proof -
  let ?c = "case md of None \<Rightarrow> [] | Some d \<Rightarrow> d"
  let ?h = "\<lparr> rates = [(''trending_success_rate'', 7 / 10), (''ranging_success_rate'', 5 / 10)],
              optimal_vol = Some ''normal'' \<rparr>"
  let ?b = "calculate_posterior_probability w ?c ?h"
  let ?m = "probability_of_profit (MONTE_CARLO_SIMULATIONS cfg) rng w 5 (- 2) 100 10000"
  let ?f = "6 / 10 * ?b + 4 / 10 * ?m"
  have c: "(case md of None \<Rightarrow> [] | Some d \<Rightarrow> if d \<noteq> [] then d else []) = ?c"
    by (cases md) auto
  have eq: "calculate_probability cfg b md rng = Inr (py_round ?f 2)"
    using assms(1) by (simp add: calculate_probability_def py_float_def Let_def c mult.commute)
  have bb: "0 \<le> ?b" "?b \<le> 100" using posterior_range [OF assms(2,3)] by blast+
  have mm: "0 \<le> ?m" "?m \<le> 100" using probability_of_profit_range [OF assms(4)] by blast+
  have f0: "0 \<le> ?f" using bb mm by simp
  have f1: "?f \<le> of_int 100" using bb mm by simp
  have "0 \<le> py_round ?f 2" using f0 by (rule py_round_nonneg)
  moreover have "py_round ?f 2 \<le> of_int 100" using f1 by (rule py_round_le)
  ultimately show ?thesis using eq by simp
qed

text \<open>Evaluation on the sample data, one stage at a time.\<close>

lemma sample_profit_probability:
  assumes "0 < n"
  shows "probability_of_profit n (\<lambda>i. 0) 60 5 (- 2) 100 10000 = 100"
  by (rule probability_of_profit_all_wins) (use assms in simp_all)

lemma sample_posterior_trending:
  "calculate_posterior_probability 60 [(''regime'', ''trending'')]
     \<lparr> rates = [(''trending_success_rate'', 7 / 10), (''ranging_success_rate'', 1 / 2)],
       optimal_vol = Some ''normal'' \<rparr> = 2100 / 31"
  by (simp add: calculate_posterior_probability_def calculate_likelihood_def get_or_def Let_def)

lemma sample_posterior_no_data:
  "calculate_posterior_probability 60 []
     \<lparr> rates = [(''trending_success_rate'', 7 / 10), (''ranging_success_rate'', 1 / 2)],
       optimal_vol = Some ''normal'' \<rparr> = 60"
  by (simp add: calculate_posterior_probability_def calculate_likelihood_def get_or_def Let_def)

lemma sample_round_trending: "py_round (2500 / 31) 2 = 8065 / 100"
  by (simp add: py_round_def round_half_even_def Let_def)

lemma sample_round_no_data: "py_round 76 2 = 76"
  by (simp add: py_round_def round_half_even_def Let_def)

lemma sample_probability_trending:
  assumes "0 < MONTE_CARLO_SIMULATIONS cfg"
  shows "calculate_probability cfg sample_backtest (Some [(''regime'', ''trending'')]) (\<lambda>i. 0)
         = Inr (8065 / 100)"
  using assms
  by (simp add: calculate_probability_def sample_backtest_def py_float_def
        sample_profit_probability sample_posterior_trending sample_round_trending Let_def)

lemma sample_probability_no_data:
  assumes "0 < MONTE_CARLO_SIMULATIONS cfg"
  shows "calculate_probability cfg sample_backtest None (\<lambda>i. 0) = Inr 76"
  using assms
  by (simp add: calculate_probability_def sample_backtest_def py_float_def
        sample_profit_probability sample_posterior_no_data sample_round_no_data Let_def)

theorem combined_probability_weighted_and_bounded_witness:
  "calculate_probability default_settings sample_backtest (Some [(''regime'', ''trending'')])
     (\<lambda>i. 0) = Inr (8065 / 100)
   \<and> calculate_probability default_settings sample_backtest None (\<lambda>i. 0) = Inr 76"
  using combined_probability_weighted_and_bounded
          [of sample_backtest 60 default_settings "Some [(''regime'', ''trending'')]" "\<lambda>i. 0"]
        combined_probability_weighted_and_bounded
          [of sample_backtest 60 default_settings None "\<lambda>i. 0"]
  by (auto simp add: sample_backtest_def default_settings_def sample_profit_probability
        sample_posterior_trending sample_posterior_no_data sample_round_trending
        sample_round_no_data)

section \<open>The signal pipeline\<close>

text \<open>Evaluation of the scorer and the pipeline on the sample data.\<close>

lemma sample_performance_factor:
  "calculate_performance_factor
     [(''win_rate'', Num 60), (''sharpe_ratio'', Num 2), (''profit_factor'', Num 2)] = 19 / 3"
  by (simp add: calculate_performance_factor_def get_or_def float_of_def Let_def)

lemma sample_regime_trending:
  "calculate_regime_factor ''trending'' [(''trending'', 65), (''ranging'', 55), (''unknown'', 50)]
   = 65 / 10"
  by (simp add: calculate_regime_factor_def get_or_def Let_def)

lemma sample_regime_unknown:
  "calculate_regime_factor ''unknown'' [(''trending'', 65), (''ranging'', 55), (''unknown'', 50)]
   = 5"
  by (simp add: calculate_regime_factor_def get_or_def Let_def)

lemma sample_volatility_match: "calculate_volatility_factor ''normal'' ''normal'' = 10"
  by (simp add: calculate_volatility_factor_def)

lemma default_weighted_score:
  "weighted_score the_signal_scorer p m reg rp rr cv ov =
     Inr ((p / 100) * 10 * (35 / 100) + calculate_performance_factor m * (25 / 100) +
          calculate_regime_factor reg rp * (20 / 100) +
          calculate_risk_reward_factor rr * (15 / 100) +
          calculate_volatility_factor cv ov * (5 / 100))"
  by (simp add: weighted_score_def the_signal_scorer_def WEIGHTS_def subscript_def Let_def)

lemma sample_score_trending:
  "pipeline_signal_score (1613 / 20) sample_backtest (Some [(''regime'', ''trending'')]) 3
   = Inr (77 / 10)"
  by (simp add: pipeline_signal_score_def sample_backtest_def py_float_def get_or_def
        calculate_signal_score_def default_weighted_score sample_performance_factor
        sample_regime_trending sample_volatility_match calculate_risk_reward_factor_def
        py_round_def round_half_even_def Let_def)

lemma sample_score_no_data:
  "pipeline_signal_score 76 sample_backtest None 2 = Inr (68 / 10)"
  by (simp add: pipeline_signal_score_def sample_backtest_def py_float_def get_or_def
        calculate_signal_score_def default_weighted_score sample_performance_factor
        sample_regime_unknown sample_volatility_match calculate_risk_reward_factor_def
        py_round_def round_half_even_def Let_def)

lemma default_settings_fields:
  "MIN_SIGNAL_SCORE default_settings = 7"
  "MIN_PROBABILITY default_settings = 60"
  "SIGNAL_EXPIRY_HOURS default_settings = 24"
  "MONTE_CARLO_SIMULATIONS default_settings = 10000"
  by (simp_all add: default_settings_def)

lemma sample_gate: "validate_backtest default_settings sample_backtest = Inr True"
  by (simp add: validate_backtest_def default_settings_def sample_backtest_def py_float_def)

lemma sample_context: "build_signal_context st sample_backtest = Inr ()"
  by (simp add: build_signal_context_def sample_backtest_def py_float_def)

lemma sample_accept:
  "generate_signal default_settings sample_environment ''s1'' ''EURUSD'' ''BUY'' 100 99 103
     (Some [(''regime'', ''trending'')])
   = \<lparr> returned = Some \<lparr> strategy_id = ''s1'', symbol = ''EURUSD'', direction = ''BUY'',
                  entry_price = 100, stop_loss = 99, take_profit = 103,
                  probability_score = 8065 / 100, signal_score = 77 / 10,
                  s_confidence_level = ''Low'', s_risk_rating = ''High'',
                  s_trade_explanation = ''AI analysis unavailable - manual review required'',
                  s_position_sizing = 1, status = ''active'', expires_at = 24 \<rparr>,
       constructed = [\<lparr> strategy_id = ''s1'', symbol = ''EURUSD'', direction = ''BUY'',
                  entry_price = 100, stop_loss = 99, take_profit = 103,
                  probability_score = 8065 / 100, signal_score = 77 / 10,
                  s_confidence_level = ''Low'', s_risk_rating = ''High'',
                  s_trade_explanation = ''AI analysis unavailable - manual review required'',
                  s_position_sizing = 1, status = ''active'', expires_at = 24 \<rparr>],
       committed = [\<lparr> strategy_id = ''s1'', symbol = ''EURUSD'', direction = ''BUY'',
                  entry_price = 100, stop_loss = 99, take_profit = 103,
                  probability_score = 8065 / 100, signal_score = 77 / 10,
                  s_confidence_level = ''Low'', s_risk_rating = ''High'',
                  s_trade_explanation = ''AI analysis unavailable - manual review required'',
                  s_position_sizing = 1, status = ''active'', expires_at = 24 \<rparr>] \<rparr>"
proof -
  have n: "0 < MONTE_CARLO_SIMULATIONS default_settings" by (simp add: default_settings_fields)
  show ?thesis
    unfolding generate_signal_def
    by (simp add: sample_environment_def sample_gate sample_probability_trending [OF n]
          sample_score_trending sample_context default_response_def
          default_settings_fields Let_def)
qed

lemma sample_score_veto:
  "generate_signal default_settings sample_environment ''s1'' ''EURUSD'' ''BUY'' 100
     (99998 / 1000) (100004 / 1000) None = rejected"
proof -
  have n: "0 < MONTE_CARLO_SIMULATIONS default_settings" by (simp add: default_settings_fields)
  show ?thesis
    unfolding generate_signal_def
    by (simp add: sample_environment_def sample_gate sample_probability_no_data [OF n]
          sample_score_no_data default_settings_fields Let_def rejected_def)
qed


text \<open>
  Claim C1. In every invocation of \<^verbatim>\<open>generate_signal\<close>, a Signal is constructed
  (and added to the session) only if the backtest gate returned True, the computed score
  is at least the configured minimum score and the computed probability is at least the
  configured minimum probability; the constructed Signal carries exactly these two
  values, and a returned dict is one of a constructed Signal. If the gate does not pass,
  or the score is below its minimum, or the probability is below its minimum, the
  invocation returns None and constructs nothing: either threshold alone is enough.
\<close>

theorem signal_only_after_gate_and_thresholds:
  "(constructed (generate_signal cfg env sid symb dir entry sl tp md) \<noteq> [] \<longrightarrow>
      (\<exists>b q sc sg.
         latest_backtest env = Some b \<and> validate_backtest cfg b = Inr True \<and>
         calculate_probability cfg b md (draws env) = Inr q \<and>
         pipeline_signal_score q b md
           (if entry \<noteq> sl then \<bar>(tp - entry) / (entry - sl)\<bar> else 0) = Inr sc \<and>
         MIN_SIGNAL_SCORE cfg \<le> sc \<and> MIN_PROBABILITY cfg \<le> q \<and>
         constructed (generate_signal cfg env sid symb dir entry sl tp md) = [sg] \<and>
         probability_score sg = q \<and> signal_score sg = sc))
   \<and> (returned (generate_signal cfg env sid symb dir entry sl tp md) \<noteq> None \<longrightarrow>
        constructed (generate_signal cfg env sid symb dir entry sl tp md) \<noteq> [])
   \<and> (latest_backtest env = Some bt \<and> validate_backtest cfg bt \<noteq> Inr True \<longrightarrow>
        generate_signal cfg env sid symb dir entry sl tp md = rejected)
   \<and> (latest_backtest env = Some bt \<and>
      calculate_probability cfg bt md (draws env) = Inr p \<and>
      pipeline_signal_score p bt md
        (if entry \<noteq> sl then \<bar>(tp - entry) / (entry - sl)\<bar> else 0) = Inr s \<and>
      s < MIN_SIGNAL_SCORE cfg \<longrightarrow>
        generate_signal cfg env sid symb dir entry sl tp md = rejected)
   \<and> (latest_backtest env = Some bt \<and>
      calculate_probability cfg bt md (draws env) = Inr p \<and> p < MIN_PROBABILITY cfg \<longrightarrow>
        generate_signal cfg env sid symb dir entry sl tp md = rejected)"
proof (intro conjI impI)
  assume "constructed (generate_signal cfg env sid symb dir entry sl tp md) \<noteq> []"
  then show "\<exists>b q sc sg.
         latest_backtest env = Some b \<and> validate_backtest cfg b = Inr True \<and>
         calculate_probability cfg b md (draws env) = Inr q \<and>
         pipeline_signal_score q b md
           (if entry \<noteq> sl then \<bar>(tp - entry) / (entry - sl)\<bar> else 0) = Inr sc \<and>
         MIN_SIGNAL_SCORE cfg \<le> sc \<and> MIN_PROBABILITY cfg \<le> q \<and>
         constructed (generate_signal cfg env sid symb dir entry sl tp md) = [sg] \<and>
         probability_score sg = q \<and> signal_score sg = sc"
    by (auto simp: generate_signal_def rejected_def Let_def
             split: option.splits sum.splits if_splits)
next
  assume "returned (generate_signal cfg env sid symb dir entry sl tp md) \<noteq> None"
  then show "constructed (generate_signal cfg env sid symb dir entry sl tp md) \<noteq> []"
    by (auto simp: generate_signal_def rejected_def Let_def
             split: option.splits sum.splits if_splits)
next
  assume "latest_backtest env = Some bt \<and> validate_backtest cfg bt \<noteq> Inr True"
  then show "generate_signal cfg env sid symb dir entry sl tp md = rejected"
    by (auto simp: generate_signal_def split: option.splits sum.splits)
next
  assume "latest_backtest env = Some bt \<and>
      calculate_probability cfg bt md (draws env) = Inr p \<and>
      pipeline_signal_score p bt md
        (if entry \<noteq> sl then \<bar>(tp - entry) / (entry - sl)\<bar> else 0) = Inr s \<and>
      s < MIN_SIGNAL_SCORE cfg"
  then show "generate_signal cfg env sid symb dir entry sl tp md = rejected"
    by (auto simp: generate_signal_def Let_def split: option.splits sum.splits)
next
  assume "latest_backtest env = Some bt \<and>
      calculate_probability cfg bt md (draws env) = Inr p \<and> p < MIN_PROBABILITY cfg"
  then show "generate_signal cfg env sid symb dir entry sl tp md = rejected"
    by (auto simp: generate_signal_def Let_def split: option.splits sum.splits)
qed

theorem signal_only_after_gate_and_thresholds_witness:
  "validate_backtest default_settings sample_backtest = Inr True
   \<and> (\<exists>sg. constructed (generate_signal default_settings sample_environment
                ''s1'' ''EURUSD'' ''BUY'' 100 99 103 (Some [(''regime'', ''trending'')])) = [sg]
          \<and> probability_score sg = 8065 / 100 \<and> signal_score sg = 77 / 10)
   \<and> generate_signal default_settings sample_environment
        ''s1'' ''EURUSD'' ''BUY'' 100 (99998 / 1000) (100004 / 1000) None = rejected
   \<and> generate_signal (default_settings \<lparr> MIN_PROBABILITY := 90 \<rparr>) sample_environment
        ''s1'' ''EURUSD'' ''BUY'' 100 99 103 (Some [(''regime'', ''trending'')]) = rejected
   \<and> generate_signal default_settings
        (sample_environment \<lparr> latest_backtest :=
           Some (sample_backtest \<lparr> total_trades := Some 99 \<rparr>) \<rparr>)
        ''s1'' ''EURUSD'' ''BUY'' 100 99 103 (Some [(''regime'', ''trending'')]) = rejected"
proof -
  let ?md = "Some [(''regime'', ''trending'')]"
  have n: "0 < MONTE_CARLO_SIMULATIONS default_settings"
    by (simp add: default_settings_fields)
  have n': "0 < MONTE_CARLO_SIMULATIONS (default_settings \<lparr> MIN_PROBABILITY := 90 \<rparr>)"
    by (simp add: default_settings_fields)
  have lb: "latest_backtest sample_environment = Some sample_backtest"
    and dr: "draws sample_environment = (\<lambda>i. 0)"
    by (simp_all add: sample_environment_def)
  have acc: "constructed (generate_signal default_settings sample_environment
               ''s1'' ''EURUSD'' ''BUY'' 100 99 103 ?md) \<noteq> []"
    by (simp add: sample_accept)
  have a: "\<exists>sg. constructed (generate_signal default_settings sample_environment
                ''s1'' ''EURUSD'' ''BUY'' 100 99 103 ?md) = [sg]
          \<and> probability_score sg = 8065 / 100 \<and> signal_score sg = 77 / 10"
  proof -
    from signal_only_after_gate_and_thresholds
            [where cfg = default_settings and env = sample_environment and sid = "''s1''"
               and symb = "''EURUSD''" and dir = "''BUY''" and entry = 100 and sl = 99
               and tp = 103 and md = ?md and bt = sample_backtest and p = 0 and s = 0]
         acc
    obtain b q sc sg where
      1: "latest_backtest sample_environment = Some b"
      and 2: "calculate_probability default_settings b ?md (draws sample_environment) = Inr q"
      and 3: "pipeline_signal_score q b ?md
                (if (100 :: real) \<noteq> 99 then \<bar>(103 - 100) / (100 - 99)\<bar> else 0) = Inr sc"
      and 4: "constructed (generate_signal default_settings sample_environment
                ''s1'' ''EURUSD'' ''BUY'' 100 99 103 ?md) = [sg]"
      and 5: "probability_score sg = q" "signal_score sg = sc"
      by blast
    from 1 lb have b: "b = sample_backtest" by simp
    from 2 have q: "q = 8065 / 100"
      by (simp add: b dr sample_probability_trending [OF n])
    from 3 have sc: "sc = 77 / 10"
      by (simp add: b q sample_score_trending)
    from 4 5 q sc show ?thesis by blast
  qed
  have b: "generate_signal default_settings sample_environment
        ''s1'' ''EURUSD'' ''BUY'' 100 (99998 / 1000) (100004 / 1000) None = rejected"
    using signal_only_after_gate_and_thresholds
            [where cfg = default_settings and env = sample_environment and sid = "''s1''"
               and symb = "''EURUSD''" and dir = "''BUY''" and entry = 100
               and sl = "99998 / 1000" and tp = "100004 / 1000" and md = None
               and bt = sample_backtest and p = 76 and s = "68 / 10"]
    by (simp add: lb dr sample_probability_no_data [OF n] sample_score_no_data
          default_settings_fields)
  have c: "generate_signal (default_settings \<lparr> MIN_PROBABILITY := 90 \<rparr>) sample_environment
        ''s1'' ''EURUSD'' ''BUY'' 100 99 103 ?md = rejected"
    using signal_only_after_gate_and_thresholds
            [where cfg = "default_settings \<lparr> MIN_PROBABILITY := 90 \<rparr>"
               and env = sample_environment and sid = "''s1''"
               and symb = "''EURUSD''" and dir = "''BUY''" and entry = 100 and sl = 99
               and tp = 103 and md = ?md and bt = sample_backtest and p = "8065 / 100"]
    by (simp add: lb dr sample_probability_trending [OF n'])
  have d: "generate_signal default_settings
        (sample_environment \<lparr> latest_backtest :=
           Some (sample_backtest \<lparr> total_trades := Some 99 \<rparr>) \<rparr>)
        ''s1'' ''EURUSD'' ''BUY'' 100 99 103 ?md = rejected"
    using signal_only_after_gate_and_thresholds
            [where cfg = default_settings
               and env = "sample_environment \<lparr> latest_backtest :=
                            Some (sample_backtest \<lparr> total_trades := Some 99 \<rparr>) \<rparr>"
               and sid = "''s1''" and symb = "''EURUSD''" and dir = "''BUY''" and entry = 100
               and sl = 99 and tp = 103 and md = ?md
               and bt = "sample_backtest \<lparr> total_trades := Some 99 \<rparr>"]
    by (simp add: validate_backtest_def default_settings_def)
  from sample_gate a b c d show ?thesis by blast
qed

end
